theory Spec2Isabelle
  imports Main "HOL-Library.AList"
begin

section \<open>Documents: the values Python's json module decodes\<close>

text \<open>
  The resource document \<^verbatim>\<open>self.obj\<close> and its snapshot \<^verbatim>\<open>self._original_obj\<close> are
  trees of Python dicts, lists and scalars. A dict is an association list read with
  \<^const>\<open>map_of\<close> and written with \<^const>\<open>AList.update\<close>, which replaces the value
  of a key in place and appends a new key, as a Python dict does; the keys of a dict are
  distinct. Floats are left out.
\<close>

datatype json =
    JNull
  | JBool bool
  | JInt int
  | JStr string
  | JList "json list"
  | JObj "(string \<times> json) list"

text \<open>The exceptions the source can raise, as values.\<close>

datatype error =
    KeyError string
  | TypeError
  | AttributeError string
  | ValueError
  | ObjectDoesNotExist string
  | HTTPError int

section \<open>Python built-ins used by the source\<close>

text \<open>\<^verbatim>\<open>d[k]\<close> with a string key: only a dict can be subscripted that way.\<close>

fun getitem :: "json \<Rightarrow> string \<Rightarrow> error + json" where
  "getitem (JObj kvs) k = (case map_of kvs k of None \<Rightarrow> Inl (KeyError k) | Some v \<Rightarrow> Inr v)"
| "getitem _ k = Inl TypeError"

text \<open>\<^verbatim>\<open>d.get(k)\<close>: \<open>None\<close> (here \<^const>\<open>JNull\<close>) for a missing key; only a dict has the method.\<close>

fun dict_get :: "json \<Rightarrow> string \<Rightarrow> error + json" where
  "dict_get (JObj kvs) k = (case map_of kvs k of None \<Rightarrow> Inr JNull | Some v \<Rightarrow> Inr v)"
| "dict_get _ k = Inl (AttributeError ''get'')"

text \<open>\<^verbatim>\<open>d[k] = v\<close> with a string key.\<close>

fun setitem :: "json \<Rightarrow> string \<Rightarrow> json \<Rightarrow> error + json" where
  "setitem (JObj kvs) k v = Inr (JObj (AList.update k v kvs))"
| "setitem _ k v = Inl TypeError"

text \<open>Truth value testing, as in \<^verbatim>\<open>if x:\<close>.\<close>

fun truthy :: "json \<Rightarrow> bool" where
  "truthy JNull = False"
| "truthy (JBool b) = b"
| "truthy (JInt n) = (n \<noteq> 0)"
| "truthy (JStr s) = (s \<noteq> [])"
| "truthy (JList xs) = (xs \<noteq> [])"
| "truthy (JObj kvs) = (kvs \<noteq> [])"

text \<open>
  \<^verbatim>\<open>a == b\<close>: \<open>bool\<close> is a subclass of \<open>int\<close> (\<^verbatim>\<open>True == 1\<close>), lists compare
  elementwise and dicts compare as mappings, whatever the order of their keys.
\<close>

fun py_eq :: "json \<Rightarrow> json \<Rightarrow> bool" where
  "py_eq JNull JNull = True"
| "py_eq (JBool a) (JBool b) = (a = b)"
| "py_eq (JBool a) (JInt n) = ((if a then 1 else 0) = n)"
| "py_eq (JInt n) (JBool a) = (n = (if a then 1 else 0))"
| "py_eq (JInt m) (JInt n) = (m = n)"
| "py_eq (JStr s) (JStr t) = (s = t)"
| "py_eq (JList xs) (JList ys) = list_all2 py_eq xs ys"
| "py_eq (JObj a) (JObj b) =
     (list_all (\<lambda>(k, v). case map_of b k of None \<Rightarrow> False | Some w \<Rightarrow> py_eq v w) a
      \<and> list_all (\<lambda>(k, w). map_of a k \<noteq> None) b)"
| "py_eq _ _ = False"

text \<open>Decimal digits of a natural number, and \<^verbatim>\<open>str\<close> of an \<open>int\<close>.\<close>

fun digits :: "nat \<Rightarrow> string" where
  "digits n =
     (if n < 10 then [''0123456789'' ! n]
      else digits (n div 10) @ [''0123456789'' ! (n mod 10)])"

definition int_str :: "int \<Rightarrow> string" where
  "int_str i = (if i < 0 then CHR ''-'' # digits (nat (- i)) else digits (nat i))"

definition hex_lower :: "nat \<Rightarrow> char" where
  "hex_lower n = ''0123456789abcdef'' ! n"

definition hex_upper :: "nat \<Rightarrow> char" where
  "hex_upper n = ''0123456789ABCDEF'' ! n"

text \<open>
  \<^verbatim>\<open>repr\<close> of a \<open>str\<close> (Python 3): single quotes unless the text holds a single
  quote and no double quote; the quote, the backslash and control characters are
  escaped. Bytes from \<open>0x80\<close> on (UTF-8 text) are kept as they are, also where
  Python escapes a character outside ASCII that does not print.
\<close>

definition repr_char :: "char \<Rightarrow> char \<Rightarrow> string" where
  "repr_char q c =
     (if c = q \<or> c = CHR 0x5C then [CHR 0x5C, c]
      else if c = CHR 0x09 then [CHR 0x5C, CHR ''t'']
      else if c = CHR 0x0A then [CHR 0x5C, CHR ''n'']
      else if c = CHR 0x0D then [CHR 0x5C, CHR ''r'']
      else if (of_char c :: nat) < 32 \<or> (of_char c :: nat) = 127
        then [CHR 0x5C, CHR ''x'', hex_lower (of_char c div 16), hex_lower (of_char c mod 16)]
      else [c])"

definition str_repr :: "string \<Rightarrow> string" where
  "str_repr s =
     (let q = (if CHR 0x27 \<in> set s \<and> CHR 0x22 \<notin> set s then CHR 0x22 else CHR 0x27)
      in q # concat (map (repr_char q) s) @ [q])"

fun join :: "string \<Rightarrow> string list \<Rightarrow> string" where
  "join sep [] = []"
| "join sep [x] = x"
| "join sep (x # y # ys) = x @ sep @ join sep (y # ys)"

fun py_repr :: "json \<Rightarrow> string" where
  "py_repr JNull = ''None''"
| "py_repr (JBool b) = (if b then ''True'' else ''False'')"
| "py_repr (JInt i) = int_str i"
| "py_repr (JStr s) = str_repr s"
| "py_repr (JList xs) = ''['' @ join '', '' (map py_repr xs) @ '']''"
| "py_repr (JObj kvs) =
     ''{'' @ join '', '' (map (\<lambda>(k, v). str_repr k @ '': '' @ py_repr v) kvs) @ ''}''"

text \<open>\<^verbatim>\<open>str(x)\<close>, which is also what \<^verbatim>\<open>"{}".format(x)\<close> inserts.\<close>

fun py_str :: "json \<Rightarrow> string" where
  "py_str (JStr s) = s"
| "py_str j = py_repr j"

text \<open>
  \<^verbatim>\<open>s.lower()\<close> on ASCII letters; a letter outside ASCII, which Python lowercases
  too, is left as it is.
\<close>

definition lower_char :: "char \<Rightarrow> char" where
  "lower_char c =
     (case List.find (\<lambda>(u, l). u = c)
             (zip ''ABCDEFGHIJKLMNOPQRSTUVWXYZ'' ''abcdefghijklmnopqrstuvwxyz'') of
        None \<Rightarrow> c
      | Some (u, l) \<Rightarrow> l)"

definition lower :: "string \<Rightarrow> string" where
  "lower s = map lower_char s"

text \<open>
  \<^verbatim>\<open>urllib.parse.urlencode\<close> of a dict (Python 3.7): every key and value goes through
  \<^verbatim>\<open>str\<close> and \<^verbatim>\<open>quote_plus\<close>, the pairs are joined by \<open>&\<close> in the dict's order.
\<close>

definition unreserved :: "char set" where
  "unreserved =
     set (''ABCDEFGHIJKLMNOPQRSTUVWXYZ'' @ ''abcdefghijklmnopqrstuvwxyz''
          @ ''0123456789'' @ ''_.-~'')"

definition quote_plus_char :: "char \<Rightarrow> string" where
  "quote_plus_char c =
     (if c \<in> unreserved then [c]
      else if c = CHR '' '' then ''+''
      else [CHR ''%'', hex_upper (of_char c div 16), hex_upper (of_char c mod 16)])"

definition quote_plus :: "string \<Rightarrow> string" where
  "quote_plus s = concat (map quote_plus_char s)"

definition urlencode :: "(string \<times> json) list \<Rightarrow> string" where
  "urlencode ps =
     join ''&'' (map (\<lambda>(k, v). quote_plus k @ ''='' @ quote_plus (py_str v)) ps)"

section \<open>Resource kinds\<close>

text \<open>
  One constructor per class of the module; the class attributes \<^verbatim>\<open>version\<close>,
  \<^verbatim>\<open>endpoint\<close>, \<^verbatim>\<open>kind\<close> and \<^verbatim>\<open>base\<close> are functions of the class.
\<close>

datatype kind =
    ConfigMap | DaemonSet | Deployment | Endpoint | Ingress | Job | Namespace | Node
  | Pod | ReplicationController | ReplicaSet | Secret | Service | PersistentVolume
  | PersistentVolumeClaim

definition DEFAULT_NAMESPACE :: string where
  "DEFAULT_NAMESPACE = ''default''"

fun version :: "kind \<Rightarrow> string" where
  "version ConfigMap = ''v1''"
| "version DaemonSet = ''extensions/v1beta1''"
| "version Deployment = ''extensions/v1beta1''"
| "version Endpoint = ''v1''"
| "version Ingress = ''extensions/v1beta1''"
| "version Job = ''batch/v1''"
| "version Namespace = ''v1''"
| "version Node = ''v1''"
| "version Pod = ''v1''"
| "version ReplicationController = ''v1''"
| "version ReplicaSet = ''extensions/v1beta1''"
| "version Secret = ''v1''"
| "version Service = ''v1''"
| "version PersistentVolume = ''v1''"
| "version PersistentVolumeClaim = ''v1''"

fun endpoint :: "kind \<Rightarrow> string" where
  "endpoint ConfigMap = ''configmaps''"
| "endpoint DaemonSet = ''daemonsets''"
| "endpoint Deployment = ''deployments''"
| "endpoint Endpoint = ''endpoints''"
| "endpoint Ingress = ''ingresses''"
| "endpoint Job = ''jobs''"
| "endpoint Namespace = ''namespaces''"
| "endpoint Node = ''nodes''"
| "endpoint Pod = ''pods''"
| "endpoint ReplicationController = ''replicationcontrollers''"
| "endpoint ReplicaSet = ''replicasets''"
| "endpoint Secret = ''secrets''"
| "endpoint Service = ''services''"
| "endpoint PersistentVolume = ''persistentvolumes''"
| "endpoint PersistentVolumeClaim = ''persistentvolumeclaims''"

text \<open>\<^verbatim>\<open>APIObject.base = None\<close>, overridden by no class.\<close>

definition base :: "kind \<Rightarrow> string option" where
  "base k = None"

text \<open>The classes that derive from \<^verbatim>\<open>NamespacedAPIObject\<close>.\<close>

fun namespaced :: "kind \<Rightarrow> bool" where
  "namespaced Namespace = False"
| "namespaced Node = False"
| "namespaced PersistentVolume = False"
| "namespaced k = True"

section \<open>Instances and the transport\<close>

text \<open>
  \<^verbatim>\<open>set_obj\<close> stores the document and a deep copy of it: two values that share
  nothing, so a later write to the document leaves the snapshot as it was.
\<close>

record api_object =
  obj :: json
  original_obj :: json

definition set_obj :: "json \<Rightarrow> api_object" where
  "set_obj j = \<lparr>obj = j, original_obj = j\<rparr>"

text \<open>
  The request body is kept as the call that makes it: \<^verbatim>\<open>json.dumps(obj)\<close>, or
  \<^verbatim>\<open>str(jsonpatch.make_patch(src, dst))\<close>, the edit script of a library outside
  the module.
\<close>

datatype payload = Json_dumps json | Patch_str json json

text \<open>The keyword arguments \<^verbatim>\<open>api_kwargs\<close> returns; an absent key is \<open>None\<close>.\<close>

record kwargs =
  kw_url :: string
  kw_base :: "string option"
  kw_version :: string
  kw_namespace :: "json option"
  kw_headers :: "(string \<times> string) list option"
  kw_data :: "payload option"

text \<open>The keyword arguments \<^verbatim>\<open>api_kwargs\<close> takes, with their defaults.\<close>

record opts =
  collection :: bool
  subcommand :: "string option"
  query_params :: "(string \<times> json) list option"
  headers :: "(string \<times> string) list option"
  data :: "payload option"

definition no_opts :: opts where
  "no_opts = \<lparr>collection = False, subcommand = None, query_params = None,
              headers = None, data = None\<rparr>"

text \<open>
  Modelled from the spec: the response object of the transport collaborator (the HTTP
  client is not under src/). It exposes a status code, a boolean success flag
  (\<^verbatim>\<open>r.ok\<close>), a JSON-decodable body (\<open>None\<close> when the body is not JSON) and the
  raw text of the body. Which statuses the transport flags as a success is the
  transport's affair: the flag is a field of its own.
\<close>

record response =
  status_code :: int
  ok :: bool
  json_doc :: "json option"
  text_body :: string

text \<open>
  Modelled from the spec: \<^verbatim>\<open>response.raise_for_status()\<close>. Any non-success status is
  a fatal transport error: the call fails for a response whose success flag is false
  and does nothing otherwise.
\<close>

definition raise_for_status :: "response \<Rightarrow> error + unit" where
  "raise_for_status r = (if ok r then Inr () else Inl (HTTPError (status_code r)))"

text \<open>
  Modelled from the spec: \<^verbatim>\<open>self.api.raise_for_status(r)\<close>, the client's wrapper of
  the call above (the client is not under src/).
\<close>

definition api_raise_for_status :: "response \<Rightarrow> error + unit" where
  "api_raise_for_status r = raise_for_status r"

text \<open>
  Modelled from the spec: \<^verbatim>\<open>r.json()\<close>, which raises \<^verbatim>\<open>ValueError\<close> for a body
  that is not JSON.
\<close>

definition response_json :: "response \<Rightarrow> error + json" where
  "response_json r = (case json_doc r of None \<Rightarrow> Inl ValueError | Some j \<Rightarrow> Inr j)"

datatype http_method = GET | POST | PATCH | DELETE

text \<open>
  What the program does to the outside, in order: a request sent, or a
  \<^verbatim>\<open>time.sleep\<close> of so many seconds.
\<close>

datatype event = Call http_method kwargs | Sleep nat

text \<open>
  The world an operation runs in: the remote side, which answers a request knowing
  everything that happened before it, the trace of what happened, and the instance.
\<close>

record world =
  respond :: "event list \<Rightarrow> http_method \<Rightarrow> kwargs \<Rightarrow> response"
  trace :: "event list"
  inst :: api_object

text \<open>
  Modelled from the spec: \<^verbatim>\<open>self.api.get\<close>, \<^verbatim>\<open>post\<close>, \<^verbatim>\<open>patch\<close> and
  \<^verbatim>\<open>delete\<close> (the client is not under src/): the request is recorded and the
  remote side's answer returned.
\<close>

definition send :: "http_method \<Rightarrow> kwargs \<Rightarrow> world \<Rightarrow> response \<times> world" where
  "send m kw w = (respond w (trace w) m kw, w\<lparr>trace := trace w @ [Call m kw]\<rparr>)"

definition sleep :: "nat \<Rightarrow> world \<Rightarrow> world" where
  "sleep n w = w\<lparr>trace := trace w @ [Sleep n]\<rparr>"

section \<open>APIObject\<close>

definition name :: "api_object \<Rightarrow> error + json" where
  "name s =
     (case getitem (obj s) ''metadata'' of
        Inl e \<Rightarrow> Inl e
      | Inr m \<Rightarrow> getitem m ''name'')"

text \<open>
  The \<^verbatim>\<open>namespace\<close> attribute: the class attribute \<open>None\<close> of \<^verbatim>\<open>APIObject\<close>, the
  property of \<^verbatim>\<open>NamespacedAPIObject\<close>.
\<close>

definition namespace :: "kind \<Rightarrow> api_object \<Rightarrow> error + json option" where
  "namespace k s =
     (if namespaced k then
        (case getitem (obj s) ''metadata'' of
           Inl e \<Rightarrow> Inl e
         | Inr m \<Rightarrow>
             (case dict_get m ''namespace'' of
                Inl e \<Rightarrow> Inl e
              | Inr v \<Rightarrow>
                  if truthy v then
                    (case getitem m ''namespace'' of
                       Inl e \<Rightarrow> Inl e
                     | Inr n \<Rightarrow> Inr (Some n))
                  else Inr (Some (JStr DEFAULT_NAMESPACE))))
      else Inr None)"

definition api_kwargs :: "kind \<Rightarrow> api_object \<Rightarrow> opts \<Rightarrow> error + kwargs" where
  "api_kwargs k s a =
     (case (if collection a then Inr (endpoint k)
            else (case getitem (original_obj s) ''metadata'' of
                    Inl e \<Rightarrow> Inl e
                  | Inr m \<Rightarrow>
                      (case getitem m ''name'' of
                         Inl e \<Rightarrow> Inl e
                       | Inr n \<Rightarrow> Inr (endpoint k @ ''/'' @ py_str n)))) of
        Inl e \<Rightarrow> Inl e
      | Inr u0 \<Rightarrow>
          (case namespace k s of
             Inl e \<Rightarrow> Inl e
           | Inr ns \<Rightarrow>
               (let u1 = (case subcommand a of
                            None \<Rightarrow> u0
                          | Some c \<Rightarrow> if c \<noteq> [] then u0 @ ''/'' @ c else u0);
                    u2 = (case query_params a of
                            None \<Rightarrow> u1
                          | Some ps \<Rightarrow> if ps \<noteq> [] then u1 @ ''?'' @ urlencode ps else u1)
                in Inr \<lparr>kw_url = u2,
                        kw_base = (case base k of
                                     None \<Rightarrow> None
                                   | Some b \<Rightarrow> if b \<noteq> [] then Some b else None),
                        kw_version = version k,
                        kw_namespace = ns,
                        kw_headers = headers a,
                        kw_data = data a\<rparr>)))"

definition exists :: "kind \<Rightarrow> bool \<Rightarrow> world \<Rightarrow> (error + bool) \<times> world" where
  "exists k ensure w =
     (case api_kwargs k (inst w) no_opts of
        Inl e \<Rightarrow> (Inl e, w)
      | Inr kw \<Rightarrow>
          (case send GET kw w of
             (r, w1) \<Rightarrow>
               (case (if status_code r \<noteq> 200 \<and> status_code r \<noteq> 404
                      then api_raise_for_status r else Inr ()) of
                  Inl e \<Rightarrow> (Inl e, w1)
                | Inr u \<Rightarrow>
                    if \<not> ok r then
                      (if ensure then
                         (case name (inst w1) of
                            Inl e \<Rightarrow> (Inl e, w1)
                          | Inr n \<Rightarrow>
                              (Inl (ObjectDoesNotExist (py_str n @ '' does not exist.'')), w1))
                       else (Inr False, w1))
                    else (Inr True, w1))))"

text \<open>
  \<^verbatim>\<open>create\<close>, \<^verbatim>\<open>reload\<close> and \<^verbatim>\<open>update\<close> end the same way:
  \<^verbatim>\<open>self.api.raise_for_status(r); self.set_obj(r.json())\<close>.
\<close>

definition confirm :: "response \<Rightarrow> world \<Rightarrow> (error + unit) \<times> world" where
  "confirm r w =
     (case api_raise_for_status r of
        Inl e \<Rightarrow> (Inl e, w)
      | Inr u \<Rightarrow>
          (case response_json r of
             Inl e \<Rightarrow> (Inl e, w)
           | Inr j \<Rightarrow> (Inr (), w\<lparr>inst := set_obj j\<rparr>)))"

definition create :: "kind \<Rightarrow> world \<Rightarrow> (error + unit) \<times> world" where
  "create k w =
     (case api_kwargs k (inst w)
             (no_opts\<lparr>data := Some (Json_dumps (obj (inst w))), collection := True\<rparr>) of
        Inl e \<Rightarrow> (Inl e, w)
      | Inr kw \<Rightarrow> (case send POST kw w of (r, w1) \<Rightarrow> confirm r w1))"

definition reload :: "kind \<Rightarrow> world \<Rightarrow> (error + unit) \<times> world" where
  "reload k w =
     (case api_kwargs k (inst w) no_opts of
        Inl e \<Rightarrow> (Inl e, w)
      | Inr kw \<Rightarrow> (case send GET kw w of (r, w1) \<Rightarrow> confirm r w1))"

definition update :: "kind \<Rightarrow> world \<Rightarrow> (error + unit) \<times> world" where
  "update k w =
     (let patch = Patch_str (original_obj (inst w)) (obj (inst w)) in
      case api_kwargs k (inst w)
             (no_opts\<lparr>headers := Some [(''Content-Type'', ''application/json-patch+json'')],
                      data := Some patch\<rparr>) of
        Inl e \<Rightarrow> (Inl e, w)
      | Inr kw \<Rightarrow> (case send PATCH kw w of (r, w1) \<Rightarrow> confirm r w1))"

definition delete :: "kind \<Rightarrow> world \<Rightarrow> (error + unit) \<times> world" where
  "delete k w =
     (case api_kwargs k (inst w) no_opts of
        Inl e \<Rightarrow> (Inl e, w)
      | Inr kw \<Rightarrow>
          (case send DELETE kw w of
             (r, w1) \<Rightarrow>
               (case (if status_code r \<noteq> 404 then api_raise_for_status r else Inr ()) of
                  Inl e \<Rightarrow> (Inl e, w1)
                | Inr u \<Rightarrow> (Inr (), w1))))"

section \<open>ReplicatedAPIObject\<close>

definition replicas :: "api_object \<Rightarrow> error + json" where
  "replicas s =
     (case getitem (obj s) ''spec'' of
        Inl e \<Rightarrow> Inl e
      | Inr sp \<Rightarrow> getitem sp ''replicas'')"

text \<open>
  \<^verbatim>\<open>self.obj["spec"][field] = value\<close>: the write goes to the dict inside the
  document, so the document is rebuilt around the updated \<open>spec\<close>.
\<close>

definition set_spec_field :: "string \<Rightarrow> json \<Rightarrow> api_object \<Rightarrow> error + api_object" where
  "set_spec_field field v s =
     (case getitem (obj s) ''spec'' of
        Inl e \<Rightarrow> Inl e
      | Inr sp \<Rightarrow>
          (case setitem sp field v of
             Inl e \<Rightarrow> Inl e
           | Inr sp' \<Rightarrow>
               (case setitem (obj s) ''spec'' sp' of
                  Inl e \<Rightarrow> Inl e
                | Inr d \<Rightarrow> Inr (s\<lparr>obj := d\<rparr>))))"

definition set_replicas :: "json \<Rightarrow> api_object \<Rightarrow> error + api_object" where
  "set_replicas v s = set_spec_field ''replicas'' v s"

section \<open>ReplicationController.scale\<close>

text \<open>
  The \<^verbatim>\<open>while True\<close> loop has no bound: a run that never leaves it is the value
  \<open>None\<close>.
\<close>

partial_function (option) ReplicationController_scale_loop ::
    "json \<Rightarrow> world \<Rightarrow> ((error + unit) \<times> world) option" where
  "ReplicationController_scale_loop target w =
     (case reload ReplicationController w of
        (Inl e, w1) \<Rightarrow> Some (Inl e, w1)
      | (Inr u, w1) \<Rightarrow>
          (case replicas (inst w1) of
             Inl e \<Rightarrow> Some (Inl e, w1)
           | Inr v \<Rightarrow>
               if py_eq v target then Some (Inr (), w1)
               else ReplicationController_scale_loop target (sleep 1 w1)))"

definition ReplicationController_scale ::
    "int option \<Rightarrow> world \<Rightarrow> ((error + unit) \<times> world) option" where
  "ReplicationController_scale r w =
     (case (case r of None \<Rightarrow> replicas (inst w) | Some n \<Rightarrow> Inr (JInt n)) of
        Inl e \<Rightarrow> Some (Inl e, w)
      | Inr target \<Rightarrow>
          (case exists ReplicationController True w of
             (Inl e, w1) \<Rightarrow> Some (Inl e, w1)
           | (Inr b, w1) \<Rightarrow>
               (case set_replicas target (inst w1) of
                  Inl e \<Rightarrow> Some (Inl e, w1)
                | Inr s \<Rightarrow>
                    (case update ReplicationController (w1\<lparr>inst := s\<rparr>) of
                       (Inl e, w2) \<Rightarrow> Some (Inl e, w2)
                     | (Inr u, w2) \<Rightarrow> ReplicationController_scale_loop target w2))))"

section \<open>Job.scale\<close>

definition parallelism :: "api_object \<Rightarrow> error + json" where
  "parallelism s =
     (case getitem (obj s) ''spec'' of
        Inl e \<Rightarrow> Inl e
      | Inr sp \<Rightarrow> getitem sp ''parallelism'')"

text \<open>
  \<^verbatim>\<open>self.self\<close>: neither the instance (\<^verbatim>\<open>api\<close>, \<^verbatim>\<open>obj\<close>, \<^verbatim>\<open>_original_obj\<close>) nor
  any of its classes has an attribute of that name.
\<close>

definition getattr_self :: "world \<Rightarrow> error + api_object" where
  "getattr_self w = Inl (AttributeError ''self'')"

partial_function (option) Job_scale_loop ::
    "json \<Rightarrow> world \<Rightarrow> ((error + unit) \<times> world) option" where
  "Job_scale_loop target w =
     (case reload Job w of
        (Inl e, w1) \<Rightarrow> Some (Inl e, w1)
      | (Inr u, w1) \<Rightarrow>
          (case getattr_self w1 of
             Inl e \<Rightarrow> Some (Inl e, w1)
           | Inr s \<Rightarrow>
               (case parallelism s of
                  Inl e \<Rightarrow> Some (Inl e, w1)
                | Inr v \<Rightarrow>
                    if py_eq v target then Some (Inr (), w1)
                    else Job_scale_loop target (sleep 1 w1))))"

definition Job_scale :: "int option \<Rightarrow> world \<Rightarrow> ((error + unit) \<times> world) option" where
  "Job_scale r w =
     (case (case r of None \<Rightarrow> parallelism (inst w) | Some n \<Rightarrow> Inr (JInt n)) of
        Inl e \<Rightarrow> Some (Inl e, w)
      | Inr target \<Rightarrow>
          (case exists Job True w of
             (Inl e, w1) \<Rightarrow> Some (Inl e, w1)
           | (Inr b, w1) \<Rightarrow>
               (case set_spec_field ''parallelism'' target (inst w1) of
                  Inl e \<Rightarrow> Some (Inl e, w1)
                | Inr s \<Rightarrow>
                    (case update Job (w1\<lparr>inst := s\<rparr>) of
                       (Inl e, w2) \<Rightarrow> Some (Inl e, w2)
                     | (Inr u, w2) \<Rightarrow> Job_scale_loop target w2))))"

text \<open>
  \<^verbatim>\<open>x.scale(n)\<close> on an instance of class \<open>k\<close>: only \<^verbatim>\<open>ReplicationController\<close> and
  \<^verbatim>\<open>Job\<close> define the method, and no base class does.
\<close>

fun scale :: "kind \<Rightarrow> int option \<Rightarrow> world \<Rightarrow> ((error + unit) \<times> world) option" where
  "scale ReplicationController r w = ReplicationController_scale r w"
| "scale Job r w = Job_scale r w"
| "scale k r w = Some (Inl (AttributeError ''scale''), w)"

section \<open>Pod.execute\<close>

text \<open>
  The dict \<^verbatim>\<open>params\<close> that \<^verbatim>\<open>execute\<close> builds, filled in the order of its
  statements; the keys differ, so the dict is the list of the entries made.
\<close>

definition execute_params ::
    "json \<Rightarrow> json option \<Rightarrow> json option \<Rightarrow> json option \<Rightarrow> json option \<Rightarrow> json option
      \<Rightarrow> (string \<times> json) list" where
  "execute_params command stdin stdout stderr tty container =
     [(''command'', JStr (py_str command))]
     @ (case stdin of None \<Rightarrow> [] | Some v \<Rightarrow> [(''stdin'', JStr (lower (py_str v)))])
     @ (case stdout of None \<Rightarrow> [] | Some v \<Rightarrow> [(''stdout'', JStr (lower (py_str v)))])
     @ (case stderr of None \<Rightarrow> [] | Some v \<Rightarrow> [(''stderr'', JStr (lower (py_str v)))])
     @ (case tty of None \<Rightarrow> [] | Some v \<Rightarrow> [(''tty'', v)])
     @ (case container of None \<Rightarrow> [] | Some v \<Rightarrow> [(''container'', v)])"

definition Pod_execute ::
    "json \<Rightarrow> json option \<Rightarrow> json option \<Rightarrow> json option \<Rightarrow> json option \<Rightarrow> json option
      \<Rightarrow> world \<Rightarrow> (error + string) \<times> world" where
  "Pod_execute command stdin stdout stderr tty container w =
     (let params = execute_params command stdin stdout stderr tty container
      in case api_kwargs Pod (inst w)
                (no_opts\<lparr>subcommand := Some ''exec'', query_params := Some params\<rparr>) of
           Inl e \<Rightarrow> (Inl e, w)
         | Inr kw \<Rightarrow>
             (case send GET kw w of
                (r, w1) \<Rightarrow>
                  (case raise_for_status r of
                     Inl e \<Rightarrow> (Inl e, w1)
                   | Inr u \<Rightarrow> (Inr (text_body r), w1))))"

section \<open>What an operation sent\<close>

text \<open>The events an operation added to the trace of \<open>w\<close> on its way to \<open>w'\<close>.\<close>

definition issued :: "world \<Rightarrow> world \<Rightarrow> event list" where
  "issued w w' = drop (length (trace w)) (trace w')"

section \<open>Example documents, servers and worlds\<close>

text \<open>A remote side that gives the same answer to every request.\<close>

definition answering :: "response \<Rightarrow> json \<Rightarrow> world" where
  "answering r d = \<lparr>respond = (\<lambda>hist m kw. r), trace = [], inst = set_obj d\<rparr>"

text \<open>A response with no body that the transport flags as a failure.\<close>

definition failure :: "int \<Rightarrow> response" where
  "failure c = \<lparr>status_code = c, ok = False, json_doc = None, text_body = []\<rparr>"

definition pod_doc :: "string \<Rightarrow> json" where
  "pod_doc nm = JObj [(''metadata'', JObj [(''name'', JStr nm)]), (''spec'', JObj [])]"

definition pod_doc_in :: "string \<Rightarrow> json \<Rightarrow> json" where
  "pod_doc_in nm ns =
     JObj [(''metadata'', JObj [(''name'', JStr nm), (''namespace'', ns)]), (''spec'', JObj [])]"

text \<open>A caller that renamed the document after construction.\<close>

definition renamed :: "string \<Rightarrow> world \<Rightarrow> world" where
  "renamed nm w = w\<lparr>inst := (inst w)\<lparr>obj := pod_doc nm\<rparr>\<rparr>"

definition plain_kwargs :: "string \<Rightarrow> string \<Rightarrow> kwargs" where
  "plain_kwargs u v =
     \<lparr>kw_url = u, kw_base = None, kw_version = v, kw_namespace = Some (JStr ''default''),
      kw_headers = None, kw_data = None\<rparr>"

definition patch_kwargs :: "string \<Rightarrow> string \<Rightarrow> json \<Rightarrow> json \<Rightarrow> kwargs" where
  "patch_kwargs u v old new =
     (plain_kwargs u v)
       \<lparr>kw_headers := Some [(''Content-Type'', ''application/json-patch+json'')],
        kw_data := Some (Patch_str old new)\<rparr>"

text \<open>
  The scale scenario: a document named \<open>web\<close> whose \<open>spec\<close> holds one count, and a
  remote side that answers every request with a success of status 200 and reports the
  count as 1 to
  the third request (the first reload) and as 3 to every other one.
\<close>

definition scalable_doc :: "string \<Rightarrow> int \<Rightarrow> json" where
  "scalable_doc field n =
     JObj [(''metadata'', JObj [(''name'', JStr ''web'')]), (''spec'', JObj [(field, JInt n)])]"

fun is_call :: "event \<Rightarrow> bool" where
  "is_call (Call m kw) = True"
| "is_call (Sleep n) = False"

definition converging :: "string \<Rightarrow> event list \<Rightarrow> http_method \<Rightarrow> kwargs \<Rightarrow> response" where
  "converging field hist m kw =
     \<lparr>status_code = 200, ok = True,
      json_doc = Some (scalable_doc field (if length (filter is_call hist) = 2 then 1 else 3)),
      text_body = []\<rparr>"

definition scale_world :: "string \<Rightarrow> world" where
  "scale_world field =
     \<lparr>respond = converging field, trace = [], inst = set_obj (scalable_doc field 1)\<rparr>"

section \<open>Evaluation and basic facts\<close>

declare ReplicationController_scale_loop.simps [code]

declare Job_scale_loop.simps [code]

lemmas model_defs =
  exists_def create_def reload_def update_def delete_def confirm_def send_def sleep_def
  api_kwargs_def namespace_def name_def replicas_def parallelism_def set_replicas_def
  set_spec_field_def set_obj_def no_opts_def api_raise_for_status_def
  raise_for_status_def response_json_def issued_def base_def DEFAULT_NAMESPACE_def
  getattr_self_def

lemmas example_defs =
  answering_def failure_def pod_doc_def pod_doc_in_def renamed_def plain_kwargs_def
  patch_kwargs_def scalable_doc_def converging_def scale_world_def

lemma confirm_cases:
  "confirm r w =
     (if \<not> ok r then (Inl (HTTPError (status_code r)), w)
      else case json_doc r of
             None \<Rightarrow> (Inl ValueError, w)
           | Some j \<Rightarrow> (Inr (), w\<lparr>inst := set_obj j\<rparr>))"
  by (simp add: confirm_def api_raise_for_status_def raise_for_status_def response_json_def
      split: option.splits)

lemma api_kwargs_url:
  assumes "api_kwargs k s a = Inr kw" and "\<not> collection a"
  shows "\<exists>m n. getitem (original_obj s) ''metadata'' = Inr m \<and> getitem m ''name'' = Inr n
      \<and> kw_url kw = endpoint k @ ''/'' @ py_str n
          @ (case subcommand a of None \<Rightarrow> [] | Some c \<Rightarrow> if c \<noteq> [] then ''/'' @ c else [])
          @ (case query_params a of None \<Rightarrow> []
             | Some ps \<Rightarrow> if ps \<noteq> [] then ''?'' @ urlencode ps else [])"
  using assms
  by (auto simp: api_kwargs_def Let_def split: sum.splits option.splits if_splits)

lemma api_kwargs_namespace:
  "api_kwargs k s a = Inr kw \<Longrightarrow> namespace k s = Inr (kw_namespace kw)"
  by (auto simp: api_kwargs_def Let_def split: sum.splits if_splits)

lemma exists_issued:
  "issued w (snd (exists k e w)) =
     (case api_kwargs k (inst w) no_opts of Inl x \<Rightarrow> [] | Inr kw \<Rightarrow> [Call GET kw])"
  by (auto simp: exists_def send_def issued_def split: sum.splits)

lemma reload_issued:
  "issued w (snd (reload k w)) =
     (case api_kwargs k (inst w) no_opts of Inl x \<Rightarrow> [] | Inr kw \<Rightarrow> [Call GET kw])"
  by (auto simp: reload_def send_def issued_def confirm_cases split: sum.splits option.splits)

lemma create_issued:
  "issued w (snd (create k w)) =
     (case api_kwargs k (inst w)
             (no_opts\<lparr>data := Some (Json_dumps (obj (inst w))), collection := True\<rparr>) of
        Inl x \<Rightarrow> [] | Inr kw \<Rightarrow> [Call POST kw])"
  by (auto simp: create_def send_def issued_def confirm_cases split: sum.splits option.splits)

lemma update_issued:
  "issued w (snd (update k w)) =
     (case api_kwargs k (inst w)
             (no_opts\<lparr>headers := Some [(''Content-Type'', ''application/json-patch+json'')],
                      data := Some (Patch_str (original_obj (inst w)) (obj (inst w)))\<rparr>) of
        Inl x \<Rightarrow> [] | Inr kw \<Rightarrow> [Call PATCH kw])"
  by (auto simp: update_def Let_def send_def issued_def confirm_cases split: sum.splits option.splits)

lemma delete_issued:
  "issued w (snd (delete k w)) =
     (case api_kwargs k (inst w) no_opts of Inl x \<Rightarrow> [] | Inr kw \<Rightarrow> [Call DELETE kw])"
  by (auto simp: delete_def send_def issued_def split: sum.splits)

lemma execute_params_nonempty: "execute_params c si so se t ct \<noteq> []"
  by (simp add: execute_params_def)

lemma Pod_execute_issued:
  "issued w (snd (Pod_execute c si so se t ct w)) =
     (case api_kwargs Pod (inst w)
             (no_opts\<lparr>subcommand := Some ''exec'',
                      query_params := Some (execute_params c si so se t ct)\<rparr>) of
        Inl x \<Rightarrow> [] | Inr kw \<Rightarrow> [Call GET kw])"
  by (auto simp: Pod_execute_def Let_def send_def issued_def split: sum.splits)

lemma op_outcome:
  assumes "(case api_kwargs k (inst w) a of
              Inl e \<Rightarrow> (Inl e, w)
            | Inr kw \<Rightarrow> (case send m kw w of (r, w1) \<Rightarrow> confirm r w1)) = (res, w')"
  shows "case res of
           Inl e \<Rightarrow> inst w' = inst w
         | Inr u \<Rightarrow>
             (\<exists>mth kw j. issued w w' = [Call mth kw]
                \<and> ok (respond w (trace w) mth kw)
                \<and> json_doc (respond w (trace w) mth kw) = Some j
                \<and> inst w' = \<lparr>obj = j, original_obj = j\<rparr>)"
  using assms
  by (auto simp: send_def confirm_cases issued_def set_obj_def
      split: sum.splits option.splits if_splits)

lemma issued_kwargs:
  assumes "ev \<in> set (issued w (snd (exists k e w)) @ issued w (snd (create k w))
                      @ issued w (snd (reload k w)) @ issued w (snd (update k w))
                      @ issued w (snd (delete k w)))
           \<or> k = Pod \<and> ev \<in> set (issued w (snd (Pod_execute c si so se t ct w)))"
  shows "\<exists>mth kw a. ev = Call mth kw \<and> api_kwargs k (inst w) a = Inr kw"
  using assms
  by (auto simp: exists_issued create_issued reload_issued update_issued delete_issued
      Pod_execute_issued split: sum.splits)

lemma dict_get_truthy:
  "dict_get m key = Inr v \<Longrightarrow> truthy v \<Longrightarrow> getitem m key = Inr v"
  by (cases m) (auto split: option.splits)

lemma namespace_truthy:
  assumes "namespaced k" and "namespace k s = Inr ns"
  shows "\<exists>v. ns = Some v \<and> truthy v"
proof -
  obtain m where m: "getitem (obj s) ''metadata'' = Inr m"
    using assms by (auto simp: namespace_def split: sum.splits)
  obtain v where v: "dict_get m ''namespace'' = Inr v"
    using assms m by (auto simp: namespace_def split: sum.splits)
  show ?thesis
  proof (cases "truthy v")
    case True
    then show ?thesis
      using assms m v dict_get_truthy [OF v True] by (auto simp: namespace_def)
  next
    case False
    then show ?thesis
      using assms m v by (auto simp: namespace_def DEFAULT_NAMESPACE_def)
  qed
qed

lemma Job_scale_loop_raises: "\<exists>e w'. Job_scale_loop target w = Some (Inl e, w')"
  by (subst Job_scale_loop.simps) (simp add: getattr_self_def split: prod.splits sum.splits)

lemma ReplicationController_scale_loop_result:
  assumes "ReplicationController_scale_loop target w = Some y"
  shows "fst y = Inr () \<longrightarrow> (\<exists>v. replicas (inst (snd y)) = Inr v \<and> py_eq v target)"
proof (rule ReplicationController_scale_loop.raw_induct
    [where P = "\<lambda>target w y. fst y = Inr () \<longrightarrow>
                  (\<exists>v. replicas (inst (snd y)) = Inr v \<and> py_eq v target)", OF _ assms])
  fix loop :: "json \<Rightarrow> world \<Rightarrow> ((error + unit) \<times> world) option"
    and target w y
  assume hyp: "\<And>t w y. loop t w = Some y \<Longrightarrow>
      fst y = Inr () \<longrightarrow> (\<exists>v. replicas (inst (snd y)) = Inr v \<and> py_eq v t)"
    and body: "(case reload ReplicationController w of
        (Inl e, w1) \<Rightarrow> Some (Inl e, w1)
      | (Inr u, w1) \<Rightarrow>
          (case replicas (inst w1) of
             Inl e \<Rightarrow> Some (Inl e, w1)
           | Inr v \<Rightarrow>
               if py_eq v target then Some (Inr (), w1)
               else loop target (sleep 1 w1))) = Some y"
  obtain res w1 where rl: "reload ReplicationController w = (res, w1)"
    by (cases "reload ReplicationController w")
  show "fst y = Inr () \<longrightarrow> (\<exists>v. replicas (inst (snd y)) = Inr v \<and> py_eq v target)"
  proof (cases res)
    case (Inl e)
    then have "y = (Inl e, w1)"
      using body by (simp add: rl)
    then show ?thesis
      by simp
  next
    case reloaded: (Inr u)
    show ?thesis
    proof (cases "replicas (inst w1)")
      case (Inl e)
      then have "y = (Inl e, w1)"
        using body by (simp add: rl reloaded)
      then show ?thesis
        by simp
    next
      case (Inr v)
      then have step: "(if py_eq v target then Some (Inr (), w1)
                        else loop target (sleep 1 w1)) = Some y"
        using body by (simp add: rl reloaded)
      show ?thesis
      proof (cases "py_eq v target")
        case True
        then have "y = (Inr (), w1)"
          using step by simp
        then show ?thesis
          using Inr True by simp
      next
        case False
        then have "loop target (sleep 1 w1) = Some y"
          using step by simp
        then show ?thesis
          by (rule hyp)
      qed
    qed
  qed
qed

section \<open>The request target comes from the snapshot\<close>

text \<open>
  Claim C1. Every operation on the singular resource (\<^verbatim>\<open>exists\<close>, \<^verbatim>\<open>reload\<close>,
  \<^verbatim>\<open>update\<close>, \<^verbatim>\<open>delete\<close>, \<^verbatim>\<open>execute\<close>) puts into the request URL the name
  held by the snapshot \<^verbatim>\<open>_original_obj\<close>: whatever document \<open>d\<close> the caller has put
  in place of \<^verbatim>\<open>obj\<close>, every request the operation sends goes to
  \<open>endpoint/name\<close> with the snapshot's name (followed by \<open>/exec?...\<close> for
  \<^verbatim>\<open>execute\<close>).
\<close>

theorem request_name_from_snapshot:
  assumes "getitem (original_obj (inst w)) ''metadata'' = Inr md"
    and "getitem md ''name'' = Inr n"
    and "w' = w\<lparr>inst := (inst w)\<lparr>obj := d\<rparr>\<rparr>"
  shows "(\<forall>ev \<in> set (issued w' (snd (exists k e w')) @ issued w' (snd (reload k w'))
                      @ issued w' (snd (update k w')) @ issued w' (snd (delete k w'))).
            \<exists>mth kw. ev = Call mth kw \<and> kw_url kw = endpoint k @ ''/'' @ py_str n)
       \<and> (\<forall>ev \<in> set (issued w' (snd (Pod_execute c si so se t ct w'))).
            \<exists>kw q. ev = Call GET kw \<and> kw_url kw = ''pods/'' @ py_str n @ ''/exec?'' @ q)"
proof -
  have snap: "original_obj (inst w') = original_obj (inst w)"
    using assms(3) by simp
  have url: "kw_url kw = endpoint k' @ ''/'' @ py_str n
          @ (case subcommand a of None \<Rightarrow> [] | Some c \<Rightarrow> if c \<noteq> [] then ''/'' @ c else [])
          @ (case query_params a of None \<Rightarrow> []
             | Some ps \<Rightarrow> if ps \<noteq> [] then ''?'' @ urlencode ps else [])"
    if "api_kwargs k' (inst w') a = Inr kw" and "\<not> collection a" for k' a kw
    using api_kwargs_url [OF that] assms(1,2) snap by auto
  have plain: "kw_url kw = endpoint k @ ''/'' @ py_str n"
    if "api_kwargs k (inst w') a = Inr kw" and "\<not> collection a" and "subcommand a = None"
      and "query_params a = None" for a kw
    using url [OF that(1,2)] that(3,4) by simp
  have one: "\<exists>mth kw. ev = Call mth kw \<and> kw_url kw = endpoint k @ ''/'' @ py_str n"
    if "ev \<in> set (issued w' (snd (exists k e w')))" for ev
    using that plain [of no_opts] by (auto simp: exists_issued no_opts_def split: sum.splits)
  have two: "\<exists>mth kw. ev = Call mth kw \<and> kw_url kw = endpoint k @ ''/'' @ py_str n"
    if "ev \<in> set (issued w' (snd (reload k w')))" for ev
    using that plain [of no_opts] by (auto simp: reload_issued no_opts_def split: sum.splits)
  have three: "\<exists>mth kw. ev = Call mth kw \<and> kw_url kw = endpoint k @ ''/'' @ py_str n"
    if "ev \<in> set (issued w' (snd (update k w')))" for ev
    using that
      plain [of "no_opts\<lparr>headers := Some [(''Content-Type'', ''application/json-patch+json'')],
                      data := Some (Patch_str (original_obj (inst w')) (obj (inst w')))\<rparr>"]
    by (auto simp: update_issued no_opts_def split: sum.splits)
  have four: "\<exists>mth kw. ev = Call mth kw \<and> kw_url kw = endpoint k @ ''/'' @ py_str n"
    if "ev \<in> set (issued w' (snd (delete k w')))" for ev
    using that plain [of no_opts] by (auto simp: delete_issued no_opts_def split: sum.splits)
  have five: "\<exists>kw q. ev = Call GET kw \<and> kw_url kw = ''pods/'' @ py_str n @ ''/exec?'' @ q"
    if "ev \<in> set (issued w' (snd (Pod_execute c si so se t ct w')))" for ev
    using that execute_params_nonempty [of c si so se t ct]
      url [of Pod "no_opts\<lparr>subcommand := Some ''exec'',
                      query_params := Some (execute_params c si so se t ct)\<rparr>"]
    by (auto simp: Pod_execute_issued no_opts_def split: sum.splits)
  show ?thesis
    using one two three four five by auto
qed

text \<open>
  The snapshot is named \<open>p1\<close>, the caller renamed the document to \<open>other\<close>, and the
  patch still goes to \<open>pods/p1\<close>.
\<close>

theorem request_name_from_snapshot_witness:
  "getitem (original_obj (inst (answering (failure 500) (pod_doc ''p1'')))) ''metadata''
     = Inr (JObj [(''name'', JStr ''p1'')])
   \<and> getitem (JObj [(''name'', JStr ''p1'')]) ''name'' = Inr (JStr ''p1'')
   \<and> name (inst (renamed ''other'' (answering (failure 500) (pod_doc ''p1''))))
     = Inr (JStr ''other'')
   \<and> issued (renamed ''other'' (answering (failure 500) (pod_doc ''p1'')))
      (snd (update Pod (renamed ''other'' (answering (failure 500) (pod_doc ''p1'')))))
     = [Call PATCH (patch_kwargs ''pods/p1'' ''v1'' (pod_doc ''p1'') (pod_doc ''other''))]"
  using request_name_from_snapshot [of "answering (failure 500) (pod_doc ''p1'')"
      "JObj [(''name'', JStr ''p1'')]" "JStr ''p1''"
      "renamed ''other'' (answering (failure 500) (pod_doc ''p1''))" "pod_doc ''other''"]
  by (simp add: model_defs example_defs Let_def)

section \<open>Job.scale\<close>

text \<open>
  Claim C2. For a Job that exists remotely, \<^verbatim>\<open>scale(desired)\<close> is to set the local
  \<open>spec.parallelism\<close>, call \<^verbatim>\<open>update()\<close>, then reload until the reloaded
  \<open>spec.parallelism\<close> equals \<open>desired\<close>, and end there. The source reads
  \<^verbatim>\<open>self.self.obj\<close> after the reload: on a remote side that accepts the patch and
  reports \<open>parallelism = 3\<close> at once, \<^verbatim>\<open>scale(3)\<close> sends the existence check, the
  patch and one reload, and then raises \<^verbatim>\<open>AttributeError\<close> although the reloaded
  value is the desired one.
\<close>

theorem Job_scale_raises_AttributeError:
  "\<exists>w'. scale Job (Some 3)
            (answering \<lparr>status_code = 200, ok = True, json_doc = Some (scalable_doc ''parallelism'' 3),
                        text_body = []\<rparr> (scalable_doc ''parallelism'' 1))
          = Some (Inl (AttributeError ''self''), w')
     \<and> issued (answering \<lparr>status_code = 200, ok = True, json_doc = Some (scalable_doc ''parallelism'' 3),
                        text_body = []\<rparr> (scalable_doc ''parallelism'' 1)) w' =
         [Call GET (plain_kwargs ''jobs/web'' ''batch/v1''),
          Call PATCH (patch_kwargs ''jobs/web'' ''batch/v1''
                        (scalable_doc ''parallelism'' 1) (scalable_doc ''parallelism'' 3)),
          Call GET (plain_kwargs ''jobs/web'' ''batch/v1'')]
     \<and> parallelism (inst w') = Inr (JInt 3)"
  by (simp add: Job_scale_def Job_scale_loop.simps model_defs example_defs Let_def)

section \<open>Failure leaves the instance as it was\<close>

text \<open>
  Claim C3. When \<^verbatim>\<open>create\<close>, \<^verbatim>\<open>reload\<close> or \<^verbatim>\<open>update\<close> fails (with a transport
  error or any other exception), the document and the snapshot are what they were
  before the call. When it succeeds, it sent one request, the response was a success
  with a JSON body, and both the document and the snapshot are that body.
\<close>

theorem state_replaced_only_on_success:
  assumes "operation \<in> {create, reload, update}"
    and "operation k w = (res, w')"
  shows "case res of
           Inl e \<Rightarrow> inst w' = inst w
         | Inr u \<Rightarrow>
             (\<exists>mth kw j. issued w w' = [Call mth kw]
                \<and> ok (respond w (trace w) mth kw)
                \<and> json_doc (respond w (trace w) mth kw) = Some j
                \<and> inst w' = \<lparr>obj = j, original_obj = j\<rparr>)"
proof -
  consider "operation = create" | "operation = reload" | "operation = update"
    using assms(1) by blast
  then show ?thesis
  proof cases
    case 1
    then show ?thesis
      using assms(2) by (intro op_outcome [where m = POST]) (simp add: create_def)
  next
    case 2
    then show ?thesis
      using assms(2) by (intro op_outcome [where m = GET]) (simp add: reload_def)
  next
    case 3
    then show ?thesis
      using assms(2) by (intro op_outcome [where m = PATCH]) (simp add: update_def Let_def)
  qed
qed

text \<open>
  An update answered with status 500 keeps the renamed document and the old snapshot; a
  create answered with status 201 and a body replaces both by the body.
\<close>

theorem state_replaced_only_on_success_witness:
  "update \<in> {create, reload, update}
   \<and> update Pod (renamed ''other'' (answering (failure 500) (pod_doc ''p1'')))
     = (Inl (HTTPError 500),
        (renamed ''other'' (answering (failure 500) (pod_doc ''p1'')))
          \<lparr>trace := [Call PATCH (patch_kwargs ''pods/p1'' ''v1'' (pod_doc ''p1'')
                                  (pod_doc ''other''))]\<rparr>)
   \<and> inst (renamed ''other'' (answering (failure 500) (pod_doc ''p1'')))
     = \<lparr>obj = pod_doc ''other'', original_obj = pod_doc ''p1''\<rparr>
   \<and> create \<in> {create, reload, update}
   \<and> create Pod (answering \<lparr>status_code = 201, ok = True,
                     json_doc = Some (pod_doc_in ''p1'' (JStr ''default'')), text_body = []\<rparr>
                   (pod_doc ''p1''))
     = (Inr (),
        (answering \<lparr>status_code = 201, ok = True,
                     json_doc = Some (pod_doc_in ''p1'' (JStr ''default'')), text_body = []\<rparr>
                   (pod_doc ''p1''))
          \<lparr>trace := [Call POST ((plain_kwargs ''pods'' ''v1'')
                                  \<lparr>kw_data := Some (Json_dumps (pod_doc ''p1''))\<rparr>)],
           inst := \<lparr>obj = pod_doc_in ''p1'' (JStr ''default''),
                    original_obj = pod_doc_in ''p1'' (JStr ''default'')\<rparr>\<rparr>)"
  using state_replaced_only_on_success [of update Pod
      "renamed ''other'' (answering (failure 500) (pod_doc ''p1''))"
      "Inl (HTTPError 500)"
      "(renamed ''other'' (answering (failure 500) (pod_doc ''p1'')))
          \<lparr>trace := [Call PATCH (patch_kwargs ''pods/p1'' ''v1'' (pod_doc ''p1'')
                                  (pod_doc ''other''))]\<rparr>"]
    state_replaced_only_on_success [of create Pod
      "answering \<lparr>status_code = 201, ok = True,
                     json_doc = Some (pod_doc_in ''p1'' (JStr ''default'')), text_body = []\<rparr>
                   (pod_doc ''p1'')"
      "Inr ()"
      "(answering \<lparr>status_code = 201, ok = True,
                     json_doc = Some (pod_doc_in ''p1'' (JStr ''default'')), text_body = []\<rparr>
                   (pod_doc ''p1''))
          \<lparr>trace := [Call POST ((plain_kwargs ''pods'' ''v1'')
                                  \<lparr>kw_data := Some (Json_dumps (pod_doc ''p1''))\<rparr>)],
           inst := \<lparr>obj = pod_doc_in ''p1'' (JStr ''default''),
                    original_obj = pod_doc_in ''p1'' (JStr ''default'')\<rparr>\<rparr>"]
  by (simp add: model_defs example_defs Let_def)

section \<open>exists\<close>

text \<open>
  Claim C4. \<^verbatim>\<open>exists(ensure)\<close> sends a GET to the singular target
  (\<open>endpoint/name\<close>, the name from the snapshot) and: returns true on status 200;
  returns false on status 404, without raising, when \<open>ensure\<close> is unset; raises
  \<^verbatim>\<open>ObjectDoesNotExist\<close> on status 404 when \<open>ensure\<close> is set (its message names
  the document, read from \<open>metadata.name\<close>); and raises the transport error for every
  status other than 200 and 404, whatever \<open>ensure\<close> is. The transport is the one the
  spec describes for the existence check: it flags status 200 as a success and status
  404 as none, and its \<^verbatim>\<open>raise_for_status\<close> fails for every other status.
\<close>

theorem exists_by_status:
  assumes "api_kwargs k (inst w) no_opts = Inr kw"
    and "r = respond w (trace w) GET kw"
    and "w1 = w\<lparr>trace := trace w @ [Call GET kw]\<rparr>"
    and success_200: "status_code r = 200 \<Longrightarrow> ok r"
    and failure_404: "status_code r = 404 \<Longrightarrow> \<not> ok r"
    and fatal_other: "status_code r \<noteq> 200 \<Longrightarrow> status_code r \<noteq> 404 \<Longrightarrow>
        api_raise_for_status r = Inl (HTTPError (status_code r))"
  shows "(\<exists>md n. getitem (original_obj (inst w)) ''metadata'' = Inr md
            \<and> getitem md ''name'' = Inr n \<and> kw_url kw = endpoint k @ ''/'' @ py_str n)
       \<and> (status_code r = 200 \<longrightarrow> exists k ensure w = (Inr True, w1))
       \<and> (status_code r = 404 \<and> \<not> ensure \<longrightarrow> exists k ensure w = (Inr False, w1))
       \<and> (status_code r = 404 \<and> ensure \<and> name (inst w) = Inr nm \<longrightarrow>
            exists k ensure w = (Inl (ObjectDoesNotExist (py_str nm @ '' does not exist.'')), w1))
       \<and> (status_code r \<noteq> 200 \<and> status_code r \<noteq> 404 \<longrightarrow>
            exists k ensure w = (Inl (HTTPError (status_code r)), w1))"
proof -
  have target: "\<exists>md n. getitem (original_obj (inst w)) ''metadata'' = Inr md
      \<and> getitem md ''name'' = Inr n \<and> kw_url kw = endpoint k @ ''/'' @ py_str n"
    using api_kwargs_url [OF assms(1)] by (simp add: no_opts_def)
  have run: "exists k b w =
      (case (if status_code r \<noteq> 200 \<and> status_code r \<noteq> 404
             then api_raise_for_status r else Inr ()) of
         Inl e \<Rightarrow> (Inl e, w1)
       | Inr u \<Rightarrow>
           if \<not> ok r then
             (if b then
                (case name (inst w) of
                   Inl e \<Rightarrow> (Inl e, w1)
                 | Inr n \<Rightarrow> (Inl (ObjectDoesNotExist (py_str n @ '' does not exist.'')), w1))
              else (Inr False, w1))
           else (Inr True, w1))" for b
    using assms(1-3) by (auto simp: exists_def send_def split: sum.splits)
  have at_200: "exists k ensure w = (Inr True, w1)" if "status_code r = 200"
    using that success_200 by (simp add: run)
  have at_404: "exists k False w = (Inr False, w1)" if "status_code r = 404"
    using that failure_404 by (simp add: run)
  have at_404_ensure:
    "exists k True w = (Inl (ObjectDoesNotExist (py_str nm @ '' does not exist.'')), w1)"
    if "status_code r = 404" and "name (inst w) = Inr nm"
    using that failure_404 by (simp add: run)
  have elsewhere: "exists k ensure w = (Inl (HTTPError (status_code r)), w1)"
    if "status_code r \<noteq> 200" and "status_code r \<noteq> 404"
    using that fatal_other by (simp add: run)
  show ?thesis
    using target at_200 at_404 at_404_ensure elsewhere by auto
qed

text \<open>
  The pod \<open>p1\<close> against a remote side that answers 200 as a success, 404 as a failure
  and 500 as a failure.
\<close>

theorem exists_by_status_witness:
  "api_kwargs Pod (inst (answering (failure 404) (pod_doc ''p1''))) no_opts
     = Inr (plain_kwargs ''pods/p1'' ''v1'')
   \<and> ok \<lparr>status_code = 200, ok = True, json_doc = None, text_body = []\<rparr>
   \<and> \<not> ok (failure 404)
   \<and> api_raise_for_status (failure 500) = Inl (HTTPError 500)
   \<and> exists Pod False
        (answering \<lparr>status_code = 200, ok = True, json_doc = None, text_body = []\<rparr>
           (pod_doc ''p1''))
     = (Inr True,
        (answering \<lparr>status_code = 200, ok = True, json_doc = None, text_body = []\<rparr>
           (pod_doc ''p1''))
          \<lparr>trace := [Call GET (plain_kwargs ''pods/p1'' ''v1'')]\<rparr>)
   \<and> exists Pod False (answering (failure 404) (pod_doc ''p1''))
     = (Inr False, (answering (failure 404) (pod_doc ''p1''))
          \<lparr>trace := [Call GET (plain_kwargs ''pods/p1'' ''v1'')]\<rparr>)
   \<and> exists Pod True (answering (failure 404) (pod_doc ''p1''))
     = (Inl (ObjectDoesNotExist ''p1 does not exist.''),
        (answering (failure 404) (pod_doc ''p1''))
          \<lparr>trace := [Call GET (plain_kwargs ''pods/p1'' ''v1'')]\<rparr>)
   \<and> exists Pod False (answering (failure 500) (pod_doc ''p1''))
     = (Inl (HTTPError 500), (answering (failure 500) (pod_doc ''p1''))
          \<lparr>trace := [Call GET (plain_kwargs ''pods/p1'' ''v1'')]\<rparr>)
   \<and> exists Pod True (answering (failure 500) (pod_doc ''p1''))
     = (Inl (HTTPError 500), (answering (failure 500) (pod_doc ''p1''))
          \<lparr>trace := [Call GET (plain_kwargs ''pods/p1'' ''v1'')]\<rparr>)"
  using
    exists_by_status
      [where k = Pod and ensure = False and nm = "JStr ''p1''"
         and kw = "plain_kwargs ''pods/p1'' ''v1''"
         and w = "answering \<lparr>status_code = 200, ok = True, json_doc = None, text_body = []\<rparr>
                    (pod_doc ''p1'')"
         and r = "\<lparr>status_code = 200, ok = True, json_doc = None, text_body = []\<rparr>"
         and ?w1.0 = "(answering
              \<lparr>status_code = 200, ok = True, json_doc = None, text_body = []\<rparr>
              (pod_doc ''p1''))\<lparr>trace := [Call GET (plain_kwargs ''pods/p1'' ''v1'')]\<rparr>"]
    exists_by_status
      [where k = Pod and ensure = False and nm = "JStr ''p1''"
         and kw = "plain_kwargs ''pods/p1'' ''v1''"
         and w = "answering (failure 404) (pod_doc ''p1'')" and r = "failure 404"
         and ?w1.0 = "(answering (failure 404) (pod_doc ''p1''))
              \<lparr>trace := [Call GET (plain_kwargs ''pods/p1'' ''v1'')]\<rparr>"]
    exists_by_status
      [where k = Pod and ensure = True and nm = "JStr ''p1''"
         and kw = "plain_kwargs ''pods/p1'' ''v1''"
         and w = "answering (failure 404) (pod_doc ''p1'')" and r = "failure 404"
         and ?w1.0 = "(answering (failure 404) (pod_doc ''p1''))
              \<lparr>trace := [Call GET (plain_kwargs ''pods/p1'' ''v1'')]\<rparr>"]
    exists_by_status
      [where k = Pod and ensure = False and nm = "JStr ''p1''"
         and kw = "plain_kwargs ''pods/p1'' ''v1''"
         and w = "answering (failure 500) (pod_doc ''p1'')" and r = "failure 500"
         and ?w1.0 = "(answering (failure 500) (pod_doc ''p1''))
              \<lparr>trace := [Call GET (plain_kwargs ''pods/p1'' ''v1'')]\<rparr>"]
    exists_by_status
      [where k = Pod and ensure = True and nm = "JStr ''p1''"
         and kw = "plain_kwargs ''pods/p1'' ''v1''"
         and w = "answering (failure 500) (pod_doc ''p1'')" and r = "failure 500"
         and ?w1.0 = "(answering (failure 500) (pod_doc ''p1''))
              \<lparr>trace := [Call GET (plain_kwargs ''pods/p1'' ''v1'')]\<rparr>"]
  by (simp add: api_kwargs_def namespace_def name_def no_opts_def base_def
      api_raise_for_status_def raise_for_status_def DEFAULT_NAMESPACE_def example_defs
      set_obj_def Let_def)

section \<open>delete\<close>

text \<open>
  Claim C5. \<^verbatim>\<open>delete()\<close> sends a DELETE to the singular target (\<open>endpoint/name\<close>,
  the name from the snapshot); status 404 ends without an error, any other error status
  raises the transport error, a success ends without an error; and in every case, also
  when no request could be built, the document and the snapshot are left as they were.
\<close>

theorem delete_by_status:
  "inst (snd (delete k w)) = inst w
   \<and> (api_kwargs k (inst w) no_opts = Inr kw \<and> r = respond w (trace w) DELETE kw
        \<and> w1 = w\<lparr>trace := trace w @ [Call DELETE kw]\<rparr> \<longrightarrow>
      (\<exists>md n. getitem (original_obj (inst w)) ''metadata'' = Inr md
            \<and> getitem md ''name'' = Inr n \<and> kw_url kw = endpoint k @ ''/'' @ py_str n)
      \<and> snd (delete k w) = w1
      \<and> (status_code r = 404 \<longrightarrow> fst (delete k w) = Inr ())
      \<and> (status_code r \<noteq> 404 \<and> \<not> ok r \<longrightarrow> fst (delete k w) = Inl (HTTPError (status_code r)))
      \<and> (ok r \<longrightarrow> fst (delete k w) = Inr ()))"
proof -
  have keep: "inst (snd (delete k w)) = inst w"
    by (simp add: delete_def send_def split: sum.splits)
  have target: "\<exists>md n. getitem (original_obj (inst w)) ''metadata'' = Inr md
      \<and> getitem md ''name'' = Inr n \<and> kw_url kw = endpoint k @ ''/'' @ py_str n"
    if "api_kwargs k (inst w) no_opts = Inr kw"
    using api_kwargs_url [OF that] by (simp add: no_opts_def)
  have run: "delete k w =
      (if status_code r \<noteq> 404 \<and> \<not> ok r then (Inl (HTTPError (status_code r)), w1)
       else (Inr (), w1))"
    if "api_kwargs k (inst w) no_opts = Inr kw" and "r = respond w (trace w) DELETE kw"
      and "w1 = w\<lparr>trace := trace w @ [Call DELETE kw]\<rparr>"
    using that by (simp add: delete_def send_def api_raise_for_status_def raise_for_status_def)
  show ?thesis
    using keep target run by auto
qed

theorem delete_by_status_witness:
  "api_kwargs Pod (inst (answering (failure 404) (pod_doc ''p1''))) no_opts
     = Inr (plain_kwargs ''pods/p1'' ''v1'')
   \<and> delete Pod (answering (failure 404) (pod_doc ''p1''))
     = (Inr (), (answering (failure 404) (pod_doc ''p1''))
          \<lparr>trace := [Call DELETE (plain_kwargs ''pods/p1'' ''v1'')]\<rparr>)
   \<and> delete Pod (answering (failure 500) (pod_doc ''p1''))
     = (Inl (HTTPError 500), (answering (failure 500) (pod_doc ''p1''))
          \<lparr>trace := [Call DELETE (plain_kwargs ''pods/p1'' ''v1'')]\<rparr>)"
  using delete_by_status [of Pod "answering (failure 404) (pod_doc ''p1'')"
      "plain_kwargs ''pods/p1'' ''v1''" "failure 404"
      "(answering (failure 404) (pod_doc ''p1''))
          \<lparr>trace := [Call DELETE (plain_kwargs ''pods/p1'' ''v1'')]\<rparr>"]
    delete_by_status [of Pod "answering (failure 500) (pod_doc ''p1'')"
      "plain_kwargs ''pods/p1'' ''v1''" "failure 500"
      "(answering (failure 500) (pod_doc ''p1''))
          \<lparr>trace := [Call DELETE (plain_kwargs ''pods/p1'' ''v1'')]\<rparr>"]
  by (simp add: api_kwargs_def namespace_def name_def no_opts_def base_def
      DEFAULT_NAMESPACE_def example_defs set_obj_def Let_def prod_eq_iff)

section \<open>update\<close>

text \<open>
  Claim C6. \<^verbatim>\<open>update()\<close> computes the edit script from the current snapshot to the
  current document on every call and sends it in a PATCH to the singular target with
  content type \<open>application/json-patch+json\<close>, whatever the script is (nothing is
  asked of the document and the snapshot, which may be equal); a failure status raises
  the transport error, and on success both the document and the snapshot become the
  response body.
\<close>

theorem update_sends_patch:
  assumes "getitem (original_obj (inst w)) ''metadata'' = Inr md"
    and "getitem md ''name'' = Inr n"
    and "namespace k (inst w) = Inr ns"
    and "kw = \<lparr>kw_url = endpoint k @ ''/'' @ py_str n, kw_base = None,
                kw_version = version k, kw_namespace = ns,
                kw_headers = Some [(''Content-Type'', ''application/json-patch+json'')],
                kw_data = Some (Patch_str (original_obj (inst w)) (obj (inst w)))\<rparr>"
    and "r = respond w (trace w) PATCH kw"
    and "w1 = w\<lparr>trace := trace w @ [Call PATCH kw]\<rparr>"
  shows "update k w =
     (if \<not> ok r then (Inl (HTTPError (status_code r)), w1)
      else case json_doc r of
             None \<Rightarrow> (Inl ValueError, w1)
           | Some j \<Rightarrow> (Inr (), w1\<lparr>inst := \<lparr>obj = j, original_obj = j\<rparr>\<rparr>))"
  using assms
  by (auto simp: update_def api_kwargs_def Let_def no_opts_def base_def send_def confirm_cases
      set_obj_def split: option.splits)

text \<open>
  The document equals the snapshot, so the edit script is empty, and the PATCH is sent
  all the same.
\<close>

theorem update_sends_patch_witness:
  "getitem (original_obj (inst (answering
        \<lparr>status_code = 200, ok = True, json_doc = Some (pod_doc_in ''p1'' (JStr ''default'')), text_body = []\<rparr>
        (pod_doc ''p1'')))) ''metadata'' = Inr (JObj [(''name'', JStr ''p1'')])
   \<and> namespace Pod (inst (answering
        \<lparr>status_code = 200, ok = True, json_doc = Some (pod_doc_in ''p1'' (JStr ''default'')), text_body = []\<rparr>
        (pod_doc ''p1''))) = Inr (Some (JStr ''default''))
   \<and> obj (inst (answering
        \<lparr>status_code = 200, ok = True, json_doc = Some (pod_doc_in ''p1'' (JStr ''default'')), text_body = []\<rparr>
        (pod_doc ''p1''))) = original_obj (inst (answering
        \<lparr>status_code = 200, ok = True, json_doc = Some (pod_doc_in ''p1'' (JStr ''default'')), text_body = []\<rparr>
        (pod_doc ''p1'')))
   \<and> update Pod (answering
        \<lparr>status_code = 200, ok = True, json_doc = Some (pod_doc_in ''p1'' (JStr ''default'')), text_body = []\<rparr>
        (pod_doc ''p1''))
     = (Inr (), (answering
        \<lparr>status_code = 200, ok = True, json_doc = Some (pod_doc_in ''p1'' (JStr ''default'')), text_body = []\<rparr>
        (pod_doc ''p1''))
          \<lparr>trace := [Call PATCH (patch_kwargs ''pods/p1'' ''v1'' (pod_doc ''p1'') (pod_doc ''p1''))],
           inst := \<lparr>obj = pod_doc_in ''p1'' (JStr ''default''),
                    original_obj = pod_doc_in ''p1'' (JStr ''default'')\<rparr>\<rparr>)"
  using update_sends_patch [of "answering
        \<lparr>status_code = 200, ok = True, json_doc = Some (pod_doc_in ''p1'' (JStr ''default'')), text_body = []\<rparr>
        (pod_doc ''p1'')" "JObj [(''name'', JStr ''p1'')]" "JStr ''p1''" Pod "Some (JStr ''default'')"
      "patch_kwargs ''pods/p1'' ''v1'' (pod_doc ''p1'') (pod_doc ''p1'')"
      "\<lparr>status_code = 200, ok = True, json_doc = Some (pod_doc_in ''p1'' (JStr ''default'')), text_body = []\<rparr>"
      "(answering
        \<lparr>status_code = 200, ok = True, json_doc = Some (pod_doc_in ''p1'' (JStr ''default'')), text_body = []\<rparr>
        (pod_doc ''p1''))
          \<lparr>trace := [Call PATCH (patch_kwargs ''pods/p1'' ''v1'' (pod_doc ''p1'') (pod_doc ''p1''))]\<rparr>"]
  by (simp add: namespace_def DEFAULT_NAMESPACE_def example_defs set_obj_def)

section \<open>The scale scenario\<close>

text \<open>
  Claim C7, as stated, fails: \<^verbatim>\<open>Deployment\<close> defines no \<^verbatim>\<open>scale\<close> method and
  inherits none, so \<^verbatim>\<open>scale(3)\<close> on a Deployment with \<open>spec.replicas = 1\<close> raises
  \<^verbatim>\<open>AttributeError\<close>, sends nothing and leaves \<open>replicas\<close> at 1.
\<close>

theorem Deployment_has_no_scale:
  "scale Deployment (Some 3) (scale_world ''replicas'')
     = Some (Inl (AttributeError ''scale''), scale_world ''replicas'')
   \<and> trace (scale_world ''replicas'') = []
   \<and> replicas (inst (scale_world ''replicas'')) = Inr (JInt 1)"
  by (simp add: replicas_def set_obj_def example_defs)

text \<open>
  Claim C7, as amended. \<^verbatim>\<open>scale(3)\<close> on a ReplicationController constructed with
  \<open>spec.replicas = 1\<close>, against a remote side whose successive reload responses
  report \<open>replicas = 1\<close> and then \<open>replicas = 3\<close>, returns: after the existence check
  and the patch it sends exactly two reloads, one second of sleep between them, and ends
  with the instance's \<open>replicas\<close> equal to 3.
\<close>

theorem ReplicationController_scale_converges:
  "\<exists>w'. scale ReplicationController (Some 3) (scale_world ''replicas'') = Some (Inr (), w')
     \<and> replicas (inst (scale_world ''replicas'')) = Inr (JInt 1)
     \<and> issued (scale_world ''replicas'') w' =
         [Call GET (plain_kwargs ''replicationcontrollers/web'' ''v1''),
          Call PATCH (patch_kwargs ''replicationcontrollers/web'' ''v1''
                        (scalable_doc ''replicas'' 1) (scalable_doc ''replicas'' 3)),
          Call GET (plain_kwargs ''replicationcontrollers/web'' ''v1''),
          Sleep 1,
          Call GET (plain_kwargs ''replicationcontrollers/web'' ''v1'')]
     \<and> replicas (inst w') = Inr (JInt 3)"
  by (simp add: ReplicationController_scale_def ReplicationController_scale_loop.simps
      model_defs example_defs Let_def)

section \<open>Pod.execute\<close>

text \<open>
  Claim C8. \<^verbatim>\<open>execute\<close> is to serialise every supplied boolean flag as lowercase
  \<open>true\<close> or \<open>false\<close>. The source lowercases \<open>stdin\<close>, \<open>stdout\<close> and \<open>stderr\<close>
  and stores \<open>tty\<close> as it is: \<^verbatim>\<open>execute("ls", stdin=True, tty=True)\<close> on the pod
  \<open>p1\<close> sends \<open>stdin=true\<close> and \<open>tty=True\<close>.
\<close>

theorem Pod_execute_tty_not_lowercased:
  "Pod_execute (JStr ''ls'') (Some (JBool True)) None None (Some (JBool True)) None
       (answering \<lparr>status_code = 200, ok = True, json_doc = None, text_body = ''out''\<rparr> (pod_doc ''p1''))
     = (Inr ''out'',
        (answering \<lparr>status_code = 200, ok = True, json_doc = None, text_body = ''out''\<rparr> (pod_doc ''p1''))
          \<lparr>trace := [Call GET (plain_kwargs ''pods/p1/exec?command=ls&stdin=true&tty=True'' ''v1'')]\<rparr>)"
  by (simp add: Pod_execute_def execute_params_def urlencode_def quote_plus_def
      quote_plus_char_def unreserved_def hex_upper_def lower_def lower_char_def
      model_defs example_defs Let_def)

section \<open>The namespace of a request\<close>

text \<open>
  Claim C9. For an instance of a namespaced kind whose document's \<open>metadata\<close> has no
  \<open>namespace\<close> entry, the namespace accessor returns \<open>default\<close>, and every request
  the instance sends (\<^verbatim>\<open>exists\<close>, \<^verbatim>\<open>create\<close>, \<^verbatim>\<open>reload\<close>, \<^verbatim>\<open>update\<close>,
  \<^verbatim>\<open>delete\<close>, and \<^verbatim>\<open>execute\<close> of a Pod) carries \<open>default\<close> as its namespace.
\<close>

theorem namespace_default_when_absent:
  assumes "namespaced k"
    and "getitem (obj (inst w)) ''metadata'' = Inr (JObj md)"
    and "map_of md ''namespace'' = None"
  shows "namespace k (inst w) = Inr (Some (JStr ''default''))
     \<and> (\<forall>ev \<in> set (issued w (snd (exists k e w)) @ issued w (snd (create k w))
                      @ issued w (snd (reload k w)) @ issued w (snd (update k w))
                      @ issued w (snd (delete k w))).
           \<exists>mth kw. ev = Call mth kw \<and> kw_namespace kw = Some (JStr ''default''))
     \<and> (k = Pod \<longrightarrow>
          (\<forall>ev \<in> set (issued w (snd (Pod_execute c si so se t ct w))).
             \<exists>mth kw. ev = Call mth kw \<and> kw_namespace kw = Some (JStr ''default'')))"
proof -
  have ns: "namespace k (inst w) = Inr (Some (JStr ''default''))"
    using assms by (simp add: namespace_def DEFAULT_NAMESPACE_def)
  have "\<exists>mth kw. ev = Call mth kw \<and> kw_namespace kw = Some (JStr ''default'')"
    if mem: "ev \<in> set (issued w (snd (exists k e w)) @ issued w (snd (create k w))
                      @ issued w (snd (reload k w)) @ issued w (snd (update k w))
                      @ issued w (snd (delete k w)))
           \<or> k = Pod \<and> ev \<in> set (issued w (snd (Pod_execute c si so se t ct w)))" for ev
  proof -
    obtain mth kw a where "ev = Call mth kw" and "api_kwargs k (inst w) a = Inr kw"
      using issued_kwargs [OF mem] by blast
    then show ?thesis
      using api_kwargs_namespace [of k "inst w" a kw] ns by simp
  qed
  then show ?thesis
    using ns by blast
qed

theorem namespace_default_when_absent_witness:
  "namespaced Pod
   \<and> getitem (obj (inst (answering (failure 404) (pod_doc ''p1'')))) ''metadata''
     = Inr (JObj [(''name'', JStr ''p1'')])
   \<and> map_of [(''name'', JStr ''p1'')] ''namespace'' = None
   \<and> namespace Pod (inst (answering (failure 404) (pod_doc ''p1'')))
     = Inr (Some (JStr ''default''))
   \<and> issued (answering (failure 404) (pod_doc ''p1''))
       (snd (reload Pod (answering (failure 404) (pod_doc ''p1''))))
     = [Call GET \<lparr>kw_url = ''pods/p1'', kw_base = None, kw_version = ''v1'',
          kw_namespace = Some (JStr ''default''), kw_headers = None, kw_data = None\<rparr>]"
  using namespace_default_when_absent [of Pod "answering (failure 404) (pod_doc ''p1'')"
      "[(''name'', JStr ''p1'')]"]
  by (simp add: model_defs example_defs Let_def)

text \<open>
  Claim C10. For an instance of a namespaced kind, the namespace accessor returns
  \<open>default\<close> when \<open>metadata.namespace\<close> is absent and also when it is present with
  a falsy value (the empty string, \<open>None\<close>, \<open>0\<close>, \<open>False\<close>, an empty list or dict);
  every request the instance sends carries a namespace, and that namespace is truthy, so
  it is never the empty string.
\<close>

theorem namespace_never_empty:
  assumes "namespaced k"
  shows "(getitem (obj (inst w)) ''metadata'' = Inr (JObj md)
          \<and> (map_of md ''namespace'' = None
              \<or> (\<exists>v. map_of md ''namespace'' = Some v \<and> \<not> truthy v)) \<longrightarrow>
            namespace k (inst w) = Inr (Some (JStr ''default'')))
     \<and> (\<forall>ev \<in> set (issued w (snd (exists k e w)) @ issued w (snd (create k w))
                      @ issued w (snd (reload k w)) @ issued w (snd (update k w))
                      @ issued w (snd (delete k w))).
           \<exists>mth kw v. ev = Call mth kw \<and> kw_namespace kw = Some v \<and> truthy v
              \<and> v \<noteq> JStr [])
     \<and> (k = Pod \<longrightarrow>
          (\<forall>ev \<in> set (issued w (snd (Pod_execute c si so se t ct w))).
             \<exists>mth kw v. ev = Call mth kw \<and> kw_namespace kw = Some v \<and> truthy v
                \<and> v \<noteq> JStr []))"
proof -
  have fallback: "namespace k (inst w) = Inr (Some (JStr ''default''))"
    if "getitem (obj (inst w)) ''metadata'' = Inr (JObj md)"
      and "map_of md ''namespace'' = None
           \<or> (\<exists>v. map_of md ''namespace'' = Some v \<and> \<not> truthy v)"
    using that assms by (auto simp: namespace_def DEFAULT_NAMESPACE_def)
  have "\<exists>mth kw v. ev = Call mth kw \<and> kw_namespace kw = Some v \<and> truthy v \<and> v \<noteq> JStr []"
    if mem: "ev \<in> set (issued w (snd (exists k e w)) @ issued w (snd (create k w))
                      @ issued w (snd (reload k w)) @ issued w (snd (update k w))
                      @ issued w (snd (delete k w)))
           \<or> k = Pod \<and> ev \<in> set (issued w (snd (Pod_execute c si so se t ct w)))" for ev
  proof -
    obtain mth kw a where ev: "ev = Call mth kw" and kw: "api_kwargs k (inst w) a = Inr kw"
      using issued_kwargs [OF mem] by blast
    obtain v where "kw_namespace kw = Some v" and "truthy v"
      using namespace_truthy [OF assms api_kwargs_namespace [OF kw]] by blast
    then show ?thesis
      using ev by auto
  qed
  then show ?thesis
    using fallback by blast
qed

theorem namespace_never_empty_witness:
  "namespaced Pod
   \<and> getitem (obj (inst (answering (failure 404) (pod_doc_in ''p1'' (JStr []))))) ''metadata''
     = Inr (JObj [(''name'', JStr ''p1''), (''namespace'', JStr [])])
   \<and> map_of [(''name'', JStr ''p1''), (''namespace'', JStr [])] ''namespace'' = Some (JStr [])
   \<and> \<not> truthy (JStr [])
   \<and> namespace Pod (inst (answering (failure 404) (pod_doc_in ''p1'' (JStr []))))
     = Inr (Some (JStr ''default''))
   \<and> issued (answering (failure 404) (pod_doc_in ''p1'' (JStr [])))
       (snd (delete Pod (answering (failure 404) (pod_doc_in ''p1'' (JStr [])))))
     = [Call DELETE \<lparr>kw_url = ''pods/p1'', kw_base = None, kw_version = ''v1'',
          kw_namespace = Some (JStr ''default''), kw_headers = None, kw_data = None\<rparr>]"
  using namespace_never_empty [of Pod "answering (failure 404) (pod_doc_in ''p1'' (JStr []))"
      "[(''name'', JStr ''p1''), (''namespace'', JStr [])]"]
  by (simp add: model_defs example_defs Let_def)

section \<open>Further properties of scale\<close>

text \<open>
  \<^verbatim>\<open>Job.scale\<close> never returns normally, and never runs forever: whatever the
  document, the desired count and the remote side, it ends by raising an exception.
\<close>

theorem Job_scale_never_returns_normally: "\<exists>e w'. scale Job r w = Some (Inl e, w')"
  using Job_scale_loop_raises
  by (auto simp: Job_scale_def split: prod.splits sum.splits option.splits)

text \<open>
  When \<^verbatim>\<open>ReplicationController.scale(n)\<close> returns, the instance's \<open>replicas\<close>, as
  last reloaded, equals \<open>n\<close>.
\<close>

theorem ReplicationController_scale_result:
  assumes "scale ReplicationController (Some n) w = Some (Inr (), w')"
  shows "\<exists>v. replicas (inst w') = Inr v \<and> py_eq v (JInt n)"
  using assms ReplicationController_scale_loop_result [of "JInt n" _ "(Inr (), w')"]
  by (auto simp: ReplicationController_scale_def split: prod.splits sum.splits)

theorem ReplicationController_scale_result_witness:
  "\<exists>w'. scale ReplicationController (Some 3) (scale_world ''replicas'') = Some (Inr (), w')
      \<and> replicas (inst w') = Inr (JInt 3) \<and> py_eq (JInt 3) (JInt 3)"
  using ReplicationController_scale_result [of 3 "scale_world ''replicas''"]
  by (simp add: ReplicationController_scale_def ReplicationController_scale_loop.simps
      model_defs example_defs Let_def)

end
